theory Spec2Isabelle
  imports Main
begin

section \<open>Exceptions and arrays\<close>

text \<open>
  The exceptions the modelled code can raise.  An \<open>assert\<close> that fails raises
  \<open>AssertionError\<close> with its message (empty when the source gives none);
  \<open>np.concatenate\<close> raises \<open>ValueError\<close> on an empty list of arrays and on arrays
  whose shapes do not fit; \<open>del d[k]\<close> raises \<open>KeyError\<close> on a missing key; a boolean
  mask of the wrong length raises \<open>IndexError\<close>; a method that a value does not have
  raises \<open>AttributeError\<close>.  \<open>UserError\<close> stands for whatever a user-supplied
  scoring function raises.
\<close>

datatype exn =
    AssertionError string
  | ValueError
  | KeyError
  | IndexError
  | AttributeError
  | UserError nat

definition exn_bind :: "exn + 'b \<Rightarrow> ('b \<Rightarrow> exn + 'c) \<Rightarrow> exn + 'c" where
  "exn_bind m f = (case m of Inl e \<Rightarrow> Inl e | Inr x \<Rightarrow> f x)"

text \<open>
  A window prediction is a 2-dimensional array, classes \<open>\<times>\<close> time-steps.  It is
  modelled as the list of its rows (axis 0), each row the list of its time-steps
  (axis 1).  An array with no rows does not record its number of columns.
\<close>

type_synonym 'a array2 = "'a list list"

text \<open>
  Python's slice \<open>xs[start:]\<close>: a negative start counts from the end, and the result
  of that is clamped into \<open>0 .. len(xs)\<close>.  Since \<open>-0 = 0\<close>, the slice
  \<open>xs[-0:]\<close> is the whole of \<open>xs\<close>.
\<close>

definition py_slice_from :: "int \<Rightarrow> 'a list \<Rightarrow> 'a list" where
  "py_slice_from start xs =
     (let n = int (length xs);
          s = (if start < 0 then max (start + n) 0 else min start n)
      in drop (nat s) xs)"

text \<open>\<open>a[:, start:]\<close> on a 2-dimensional array slices every row.\<close>

definition slice_cols_from :: "int \<Rightarrow> 'a array2 \<Rightarrow> 'a array2" where
  "slice_cols_from start a = map (py_slice_from start) a"

text \<open>
  \<open>np.concatenate(arrs, axis=1)\<close> on 2-dimensional arrays.  \<open>hstack\<close> glues the rows
  of the arrays of a non-empty list; the wrapper adds the two failures of numpy: no
  array at all, and arrays whose numbers of rows differ.
\<close>

fun hstack :: "'a array2 \<Rightarrow> 'a array2 list \<Rightarrow> 'a array2" where
  "hstack a [] = a"
| "hstack a (b # bs) = hstack (map2 (@) a b) bs"

definition np_concatenate_axis1 :: "'a array2 list \<Rightarrow> exn + 'a array2" where
  "np_concatenate_axis1 arrs =
     (case arrs of
        [] \<Rightarrow> Inl ValueError
      | a # bs \<Rightarrow>
          if list_all (\<lambda>b. length b = length a) bs then Inr (hstack a bs)
          else Inl ValueError)"

text \<open>
  \<open>np.concatenate(arrs)\<close> along axis 0, used on the batches of an epoch.  The arrays
  of one epoch are batches of one model and one dataset, so their trailing shapes are
  taken to fit; the list must not be empty.
\<close>

definition np_concatenate_axis0 :: "'b list list \<Rightarrow> exn + 'b list" where
  "np_concatenate_axis0 arrs = (if arrs = [] then Inl ValueError else Inr (concat arrs))"

text \<open>\<open>np.array(rows)\<close> of a list of vectors: the vectors must have one length.\<close>

definition np_array_rows :: "'b list list \<Rightarrow> exn + 'b list list" where
  "np_array_rows rows =
     (case rows of
        [] \<Rightarrow> Inr []
      | r # rs \<Rightarrow>
          if list_all (\<lambda>q. length q = length r) rs then Inr rows else Inl ValueError)"

section \<open>The window-to-trial reassembler: \<open>trial_preds_from_supercrop_preds\<close>\<close>

text \<open>
  The window indices and stop offsets are Python or numpy integers; they count windows
  and samples of a trial, far from the 64-bit range, and are modelled as \<open>int\<close>.

  The local variables of the loop (lines 60 to 63 of \<open>scoring.py\<close>).
\<close>

record 'a loop_vars =
  preds_per_trial :: "'a array2 list"
  cur_trial_preds :: "'a array2 list"
  i_last_stop :: "int option"
  i_last_supercrop :: int

definition loop_init :: "'a loop_vars" where
  "loop_init =
     \<lparr>preds_per_trial = [], cur_trial_preds = [], i_last_stop = None,
      i_last_supercrop = - 1\<rparr>"

definition new_trial_msg :: string where
  "new_trial_msg = ''supercrop numbers in new trial should start from 0''"

text \<open>
  Lines 67 to 72: when the window index is not the successor of the last one, a new
  trial starts.  Its index must be 0; the finished trial is concatenated along the
  time axis and stored.
\<close>

definition new_trial_check :: "'a loop_vars \<Rightarrow> int \<Rightarrow> exn + 'a loop_vars" where
  "new_trial_check v i_supercrop =
     (if i_supercrop \<noteq> i_last_supercrop v + 1 then
        (if i_supercrop \<noteq> 0 then Inl (AssertionError new_trial_msg)
         else
           (case np_concatenate_axis1 (cur_trial_preds v) of
              Inl e \<Rightarrow> Inl e
            | Inr m \<Rightarrow>
                Inr (v\<lparr>preds_per_trial := preds_per_trial v @ [m],
                       cur_trial_preds := [], i_last_stop := None\<rparr>)))
      else Inr v)"

text \<open>Lines 74 to 77: the duplicate removal, \<open>supercrop_preds[:, -n_needed_preds:]\<close>.\<close>

definition remove_duplicates :: "int option \<Rightarrow> int \<Rightarrow> 'a array2 \<Rightarrow> 'a array2" where
  "remove_duplicates last_stop i_stop supercrop_preds =
     (case last_stop of
        None \<Rightarrow> supercrop_preds
      | Some ls \<Rightarrow>
          (let n_needed_preds = i_stop - ls
           in slice_cols_from (- n_needed_preds) supercrop_preds))"

text \<open>One iteration of the loop (lines 64 to 80).\<close>

definition loop_step ::
  "'a loop_vars \<Rightarrow> 'a array2 \<times> int \<times> int \<Rightarrow> exn + 'a loop_vars" where
  "loop_step v t =
     (case t of (supercrop_preds, i_supercrop, i_stop) \<Rightarrow>
        (case new_trial_check v i_supercrop of
           Inl e \<Rightarrow> Inl e
         | Inr v1 \<Rightarrow>
             Inr (v1\<lparr>cur_trial_preds :=
                         cur_trial_preds v1
                           @ [remove_duplicates (i_last_stop v1) i_stop supercrop_preds],
                      i_last_supercrop := i_supercrop,
                      i_last_stop := Some i_stop\<rparr>)))"

fun loop :: "'a loop_vars \<Rightarrow> ('a array2 \<times> int \<times> int) list \<Rightarrow> exn + 'a loop_vars" where
  "loop v [] = Inr v"
| "loop v (t # ts) =
     (case loop_step v t of Inl e \<Rightarrow> Inl e | Inr v1 \<Rightarrow> loop v1 ts)"

text \<open>Lines 81 to 83: the last trial is stored after the loop.\<close>

definition add_last_trial :: "'a loop_vars \<Rightarrow> exn + 'a array2 list" where
  "add_last_trial v =
     (case np_concatenate_axis1 (cur_trial_preds v) of
        Inl e \<Rightarrow> Inl e
      | Inr m \<Rightarrow> Inr (preds_per_trial v @ [m]))"

text \<open>The function: the two assertions of lines 41 and 42, the loop, the last trial.\<close>

definition trial_preds_from_supercrop_preds ::
  "'a array2 list \<Rightarrow> int list \<Rightarrow> int list \<Rightarrow> exn + 'a array2 list" where
  "trial_preds_from_supercrop_preds preds i_supercrop_in_trials i_stop_in_trials =
     (if length preds \<noteq> length i_supercrop_in_trials then Inl (AssertionError [])
      else if length i_supercrop_in_trials \<noteq> length i_stop_in_trials
        then Inl (AssertionError [])
      else
        (case loop loop_init (zip preds (zip i_supercrop_in_trials i_stop_in_trials)) of
           Inl e \<Rightarrow> Inl e
         | Inr v \<Rightarrow> add_last_trial v))"

section \<open>What the specification says about the reassembler\<close>

text \<open>
  The definitions of this section are not taken from the code.  They write down the
  words of the specification, to be compared with the code above.

  Well-formed window indices: the sequence is not empty, it starts with 0, and every
  later index is either the successor of the one before it or 0.
\<close>

fun wf_from :: "int \<Rightarrow> int list \<Rightarrow> bool" where
  "wf_from prev [] = True"
| "wf_from prev (i # is) = ((i = prev + 1 \<or> i = 0) \<and> wf_from i is)"

definition well_formed_indices :: "int list \<Rightarrow> bool" where
  "well_formed_indices inds = (inds \<noteq> [] \<and> wf_from (- 1) inds)"

text \<open>All windows are arrays with the same number \<open>c\<close> of class rows.\<close>

definition same_rows :: "nat \<Rightarrow> 'a array2 list \<Rightarrow> bool" where
  "same_rows c preds = list_all (\<lambda>p. length p = c) preds"

text \<open>The index before position \<open>k\<close>; before the first window the code holds \<open>-1\<close>.\<close>

definition prev_index :: "int list \<Rightarrow> nat \<Rightarrow> int" where
  "prev_index inds k = (if k = 0 then - 1 else inds ! (k - 1))"

definition i_supercrop_of :: "'a \<times> int \<times> 'b \<Rightarrow> int" where
  "i_supercrop_of t = fst (snd t)"

text \<open>
  The trials of a sequence of windows, in the order in which they occur: a trial is a
  window together with the windows after it up to the next window of index 0.
\<close>

function trials_of :: "('a \<times> int \<times> 'b) list \<Rightarrow> ('a \<times> int \<times> 'b) list list" where
  "trials_of [] = []"
| "trials_of (t # ts) =
     (t # takeWhile (\<lambda>u. i_supercrop_of u \<noteq> 0) ts)
       # trials_of (dropWhile (\<lambda>u. i_supercrop_of u \<noteq> 0) ts)"
  by pat_completeness auto
termination
  by (relation "measure length") (auto simp: length_dropWhile_le less_Suc_eq_le)

text \<open>
  The windows of one trial after the removal of duplicates: the first window whole,
  every later window cut by the slice of the code with the difference of its stop
  offset to the stop offset before it.
\<close>

fun dedup_from :: "int \<Rightarrow> ('a array2 \<times> int \<times> int) list \<Rightarrow> 'a array2 list" where
  "dedup_from ls [] = []"
| "dedup_from ls ((p, i, s) # ts) = slice_cols_from (- (s - ls)) p # dedup_from s ts"

fun trial_windows :: "('a array2 \<times> int \<times> int) list \<Rightarrow> 'a array2 list" where
  "trial_windows [] = []"
| "trial_windows ((p, i, s) # ts) = p # dedup_from s ts"

text \<open>The last \<open>n\<close> columns of an array, as the specification words the truncation.\<close>

definition last_cols :: "nat \<Rightarrow> 'a array2 \<Rightarrow> 'a array2" where
  "last_cols n a = map (\<lambda>row. drop (length row - n) row) a"

text \<open>
  Windows that never overlap: every window that continues a trial has exactly as many
  columns, in every row, as its stop offset lies after the stop offset before it.
\<close>

fun no_overlap_from :: "int \<Rightarrow> ('a array2 \<times> int \<times> int) list \<Rightarrow> bool" where
  "no_overlap_from ls [] = True"
| "no_overlap_from ls ((p, i, s) # ts) =
     ((i = 0 \<or> list_all (\<lambda>row. int (length row) = s - ls) p) \<and> no_overlap_from s ts)"

definition no_overlap :: "('a array2 \<times> int \<times> int) list \<Rightarrow> bool" where
  "no_overlap ts = (case ts of [] \<Rightarrow> True | (p, i, s) # rest \<Rightarrow> no_overlap_from s rest)"

text \<open>
  Two functions that only the proofs use: the groups of windows that the loop builds
  from a given accumulator, and the concatenation of a non-empty group.
\<close>

fun groups_from ::
  "'a array2 list \<Rightarrow> int \<Rightarrow> ('a array2 \<times> int \<times> int) list \<Rightarrow> 'a array2 list list" where
  "groups_from cur ls [] = [cur]"
| "groups_from cur ls ((p, i, s) # ts) =
     (if i = 0 then cur # groups_from [p] s ts
      else groups_from (cur @ [slice_cols_from (- (s - ls)) p]) s ts)"

definition stack :: "'a array2 list \<Rightarrow> 'a array2" where
  "stack ws = (case ws of [] \<Rightarrow> [] | a # bs \<Rightarrow> hstack a bs)"

section \<open>The labels of the trials (lines 171 to 177)\<close>

text \<open>
  \<open>np.diff(x, prepend=[p])\<close>: the differences of every element to the one before
  it, the first element to \<open>p\<close>.
\<close>

definition np_diff_prepend :: "int \<Rightarrow> int list \<Rightarrow> int list" where
  "np_diff_prepend p xs = map (\<lambda>(cur, prev). cur - prev) (zip xs (p # xs))"

text \<open>Line 175: \<open>np.diff(i_supercrop_in_trials, prepend=[1]) != -1\<close>.\<close>

definition supercrop_0_per_trial_mask :: "int list \<Rightarrow> bool list" where
  "supercrop_0_per_trial_mask i_supercrop_in_trials =
     map (\<lambda>d. d \<noteq> - 1) (np_diff_prepend 1 i_supercrop_in_trials)"

text \<open>Indexing an array with a boolean mask: the mask must have the array's length.\<close>

definition np_mask_index :: "'l list \<Rightarrow> bool list \<Rightarrow> exn + 'l list" where
  "np_mask_index ys msk =
     (if length msk \<noteq> length ys then Inl IndexError
      else Inr (map fst (filter snd (zip ys msk))))"

text \<open>Line 177: \<open>trial_ys = supercrop_ys[supercrop_0_per_trial_mask]\<close>.\<close>

definition trial_ys_of :: "int list \<Rightarrow> 'l list \<Rightarrow> exn + 'l list" where
  "trial_ys_of i_supercrop_in_trials supercrop_ys =
     np_mask_index supercrop_ys (supercrop_0_per_trial_mask i_supercrop_in_trials)"

text \<open>
  What the specification asks for, not taken from the code: the labels of the windows
  of index 0, one for each trial.
\<close>

definition first_window_labels :: "int list \<Rightarrow> 'l list \<Rightarrow> 'l list" where
  "first_window_labels inds ys = map snd (filter (\<lambda>(i, y). i = 0) (zip inds ys))"

section \<open>Tensors, the net and its callbacks\<close>

text \<open>
  A tensor is its data and the device it lives on; \<open>yp.to(device=d)\<close> gives the
  same data on device \<open>d\<close>.
\<close>

datatype device = CPU | CUDA nat

record 'a tensor =
  tdata :: 'a
  tdevice :: device

definition tensor_to :: "device \<Rightarrow> 'a tensor \<Rightarrow> 'a tensor" where
  "tensor_to d t = t\<lparr>tdevice := d\<rparr>"

text \<open>
  The attributes \<open>y_preds_\<close> and \<open>y_trues_\<close> of a callback hold values of two shapes.
  During the epoch \<open>y_preds_\<close> is a list of batches of window predictions (batch
  \<open>\<times>\<close> classes \<open>\<times>\<close> time) and \<open>y_trues_\<close> a list of batches of labels; after
  the epoch-end hook \<open>y_preds_\<close> is a list of one tensor of trial predictions (trials
  \<open>\<times>\<close> classes) and \<open>y_trues_\<close> an array with one label for each selected window.
\<close>

datatype 'a pred_data = SupercropPreds "'a array2 list" | TrialPreds "'a list list"

datatype 'l label_data = LabelBatches "'l list tensor list" | LabelArray "'l list"

text \<open>
  The closure \<open>cached_forward_iter\<close> of lines 96 to 101.  It holds the iterator
  \<open>iter(y_preds)\<close>, here the list of the predictions that the iterator has not
  produced yet, and the default of its keyword \<open>device\<close>, which is \<open>net.device\<close> at
  the time of the definition.  Every call of the closure draws from the one iterator.
\<close>

record 'p closure =
  y_preds_it :: "'p tensor list"
  device_default :: device

text \<open>
  A user-supplied scoring function receives the net, a dataset and the labels.  What
  it does with the net is inference: it calls \<open>net.forward_iter\<close> (directly, or
  through \<open>predict\<close> and \<open>predict_proba\<close>), reads some of the yielded predictions,
  and goes on, until it returns a score or raises.  \<open>ForwardIter args device_kw n k\<close>
  is a call of \<open>forward_iter\<close> with the arguments \<open>args\<close> and the keyword \<open>device\<close>
  (\<open>None\<close> when it is left out), of whose generator \<open>n\<close> predictions are requested,
  and \<open>k\<close> is what the function does with the predictions it got.
\<close>

datatype ('x, 'p, 'r) prog =
    Return 'r
  | Raise exn
  | ForwardIter 'x "device option" nat "'p tensor list \<Rightarrow> ('x, 'p, 'r) prog"

datatype callback_class = CroppedTrialEpochScoring | PostEpochTrainScoring | OtherCallback

text \<open>
  The attributes of a scoring callback.  Isabelle does not take a name that ends in an
  underscore, so \<open>y_preds_\<close>, \<open>y_trues_\<close>, \<open>supercrop_inds_\<close> and \<open>name_\<close> carry a
  prime.  An element of \<open>supercrop_inds_\<close> is the triple of the window indices, start
  offsets and stop offsets of one batch.
\<close>

record ('a, 'l, 'ds, 'x, 's) callback =
  cb_class :: callback_class
  name_' :: string
  scoring :: "'ds \<Rightarrow> 'l label_data \<Rightarrow> ('x, 'a pred_data, 's) prog"
  on_train :: bool
  use_caching :: bool
  target_extractor :: "'l list tensor \<Rightarrow> 'l list"
  crops_to_trials_computed :: bool
  y_trues_' :: "'l label_data"
  y_preds_' :: "'a pred_data tensor list"
  supercrop_inds_' :: "(int list tensor \<times> int list tensor \<times> int list tensor) list"

text \<open>
  Events of a run.  The trace is not a variable of the program: it records that the
  override of line 103, the deletion of line 111, the call of the reassembler of
  line 178 and the inference loop of lines 261 to 266 were executed, so that a theorem
  can say how often they were.
\<close>

datatype event = Override | Restore | Reassemble | Inference

text \<open>
  The net with what hangs on it.  \<open>dict_forward_iter\<close> is the entry \<open>forward_iter\<close>
  of \<open>net.__dict__\<close>, which is absent on a net as skorch builds it; when it is
  present it goes before the method of the class.  The callbacks are objects that are
  shared by reference: \<open>objs\<close> maps an address to the object there, and \<open>cbs\<close> is
  the list \<open>net._default_callbacks + net.callbacks\<close> as a list of addresses.
\<close>

record ('a, 'l, 'ds, 'x, 's) net =
  device :: device
  dict_forward_iter :: "'a pred_data closure option"
  cbs :: "nat list"
  objs :: "nat \<Rightarrow> ('a, 'l, 'ds, 'x, 's) callback"
  history :: "(string \<times> 's) list"
  trace :: "event list"

text \<open>The dictionary \<open>pred_results\<close> with its four keys.\<close>

record ('a, 'l) pred_results =
  r_i_supercrop_in_trials :: "int list"
  r_i_supercrop_stops :: "int list"
  r_preds :: "'a array2 list"
  r_supercrop_ys :: "'l list"

text \<open>
  What the code calls and this file does not define, as parameters: the method
  \<open>forward_iter\<close> of the class of the net (real inference), the method
  \<open>predict_with_supercrop_inds_and_ys\<close> of the net, \<open>np.mean\<close> of one row, the
  batches that \<open>net.get_iterator(net.get_dataset(dataset), training=False)\<close> yields,
  each unpacked into input and labels, and \<open>net.evaluation_step\<close>.
\<close>

record ('a, 'l, 'ds, 'x, 'bx) externals =
  forward_iter :: "'x \<Rightarrow> device option \<Rightarrow> 'a pred_data tensor list"
  predict_with_supercrop_inds_and_ys :: "'ds \<Rightarrow> exn + ('a, 'l) pred_results"
  np_mean :: "'a list \<Rightarrow> 'a"
  get_iterator :: "'ds \<Rightarrow> ('bx \<times> 'l list tensor) list"
  evaluation_step :: "'bx \<Rightarrow> 'a pred_data tensor"

section \<open>The epoch prediction cache: \<open>_cache_net_forward_iter\<close>\<close>

text \<open>
  Lines 99 to 101.  The arguments \<open>args\<close> (positional and keyword arguments other
  than \<open>device\<close>) are not used.  A consumer that requests \<open>n\<close> predictions of the
  generator gets the next \<open>n\<close> of the shared iterator, or all that are left, each moved
  to the device of the keyword.
\<close>

definition cached_forward_iter ::
  "'p closure \<Rightarrow> 'x \<Rightarrow> device option \<Rightarrow> nat \<Rightarrow> 'p tensor list \<times> 'p closure" where
  "cached_forward_iter c args device_kw n =
     (let dev = (case device_kw of None \<Rightarrow> device_default c | Some d \<Rightarrow> d)
      in (map (tensor_to dev) (take n (y_preds_it c)),
          c\<lparr>y_preds_it := drop n (y_preds_it c)\<rparr>))"

text \<open>
  The call \<open>net.forward_iter(...)\<close>: Python looks the attribute up in the dictionary
  of the instance first and in the class after it.
\<close>

definition net_forward_iter ::
  "('x \<Rightarrow> device option \<Rightarrow> 'a pred_data tensor list) \<Rightarrow> ('a, 'l, 'ds, 'x, 's) net \<Rightarrow>
   'x \<Rightarrow> device option \<Rightarrow> nat \<Rightarrow> 'a pred_data tensor list \<times> ('a, 'l, 'ds, 'x, 's) net" where
  "net_forward_iter real s args device_kw n =
     (case dict_forward_iter s of
        None \<Rightarrow> (take n (real args device_kw), s)
      | Some c \<Rightarrow>
          (case cached_forward_iter c args device_kw n of
             (yps, c1) \<Rightarrow> (yps, s\<lparr>dict_forward_iter := Some c1\<rparr>)))"

text \<open>Running a scoring function against the net.\<close>

primrec run_prog ::
  "('x \<Rightarrow> device option \<Rightarrow> 'a pred_data tensor list) \<Rightarrow> ('x, 'a pred_data, 'r) prog \<Rightarrow>
   ('a, 'l, 'ds, 'x, 's) net \<Rightarrow> (exn + 'r) \<times> ('a, 'l, 'ds, 'x, 's) net" where
  "run_prog real (Return r) s = (Inr r, s)"
| "run_prog real (Raise e) s = (Inl e, s)"
| "run_prog real (ForwardIter args device_kw n k) s =
     (case net_forward_iter real s args device_kw n of
        (yps, s1) \<Rightarrow> run_prog real (k yps) s1)"

text \<open>Lines 96 to 103: the iterator, the closure and the assignment to the net.\<close>

definition override_forward_iter ::
  "'a pred_data tensor list \<Rightarrow> ('a, 'l, 'ds, 'x, 's) net \<Rightarrow> ('a, 'l, 'ds, 'x, 's) net" where
  "override_forward_iter y_preds s =
     s\<lparr>dict_forward_iter := Some \<lparr>y_preds_it = y_preds, device_default = device s\<rparr>,
       trace := trace s @ [Override]\<rparr>"

text \<open>
  The context manager around the body of its \<open>with\<close> statement.  Without caching the
  body runs on the net as it is.  With caching the body runs on the net with the
  override, and whether it returns or raises, the \<open>finally\<close> clause deletes the entry
  of the dictionary; \<open>del\<close> raises \<open>KeyError\<close> when the entry is gone.
\<close>

definition cache_net_forward_iter ::
  "('a, 'l, 'ds, 'x, 's) net \<Rightarrow> bool \<Rightarrow> 'a pred_data tensor list \<Rightarrow>
   (('a, 'l, 'ds, 'x, 's) net \<Rightarrow> (exn + 'r) \<times> ('a, 'l, 'ds, 'x, 's) net) \<Rightarrow>
   (exn + 'r) \<times> ('a, 'l, 'ds, 'x, 's) net" where
  "cache_net_forward_iter s use y_preds body =
     (if \<not> use then body s
      else
        (case body (override_forward_iter y_preds s) of
           (r, s2) \<Rightarrow>
             (case dict_forward_iter s2 of
                None \<Rightarrow> (Inl KeyError, s2)
              | Some c \<Rightarrow>
                  (r, s2\<lparr>dict_forward_iter := None, trace := trace s2 @ [Restore]\<rparr>))))"

section \<open>The scoring callbacks\<close>

text \<open>
  Lines 158 to 168: the results of a validation epoch, from the buffers of the
  callback.  The buffers of a callback whose trials are not computed yet hold batches.
  Were they to hold trial results, the code would raise as well, if only further down
  (a trial prediction is no 2-dimensional window, a label has no method \<open>cpu\<close>); the
  model raises here.
\<close>

fun supercrop_batches :: "'a pred_data tensor list \<Rightarrow> exn + 'a array2 list list" where
  "supercrop_batches [] = Inr []"
| "supercrop_batches (y_pred # rest) =
     (case tdata y_pred of
        TrialPreds m \<Rightarrow> Inl ValueError
      | SupercropPreds ws \<Rightarrow> exn_bind (supercrop_batches rest) (\<lambda>bs. Inr (ws # bs)))"

definition label_batches :: "'l label_data \<Rightarrow> exn + 'l list list" where
  "label_batches y_trues =
     (case y_trues of
        LabelBatches ys \<Rightarrow> Inr (map tdata ys)
      | LabelArray ys \<Rightarrow> Inl (if ys = [] then ValueError else AttributeError))"

definition gather_pred_results ::
  "('a, 'l, 'ds, 'x, 's) callback \<Rightarrow> exn + ('a, 'l) pred_results" where
  "gather_pred_results self =
     exn_bind (np_concatenate_axis0 (map (\<lambda>i. tdata (fst i)) (supercrop_inds_' self)))
       (\<lambda>inds.
     exn_bind (np_concatenate_axis0 (map (\<lambda>i. tdata (snd (snd i))) (supercrop_inds_' self)))
       (\<lambda>stops.
     exn_bind (exn_bind (supercrop_batches (y_preds_' self)) np_concatenate_axis0)
       (\<lambda>preds.
     exn_bind (exn_bind (label_batches (y_trues_' self)) np_concatenate_axis0)
       (\<lambda>ys.
     Inr \<lparr>r_i_supercrop_in_trials = inds, r_i_supercrop_stops = stops,
          r_preds = preds, r_supercrop_ys = ys\<rparr>))))"

text \<open>
  Lines 192 to 201: the trial results are stored in every callback of the list of the
  net that is a \<open>CroppedTrialEpochScoring\<close> on the same split.
\<close>

definition set_trial_results ::
  "'a pred_data tensor list \<Rightarrow> 'l label_data \<Rightarrow>
   ('a, 'l, 'ds, 'x, 's) callback \<Rightarrow> ('a, 'l, 'ds, 'x, 's) callback" where
  "set_trial_results y_preds_per_trial trial_ys cb =
     cb\<lparr>y_preds_' := y_preds_per_trial, y_trues_' := trial_ys,
        crops_to_trials_computed := True\<rparr>"

definition store_for_cropped ::
  "nat \<Rightarrow> 'a pred_data tensor list \<Rightarrow> 'l label_data \<Rightarrow>
   ('a, 'l, 'ds, 'x, 's) net \<Rightarrow> ('a, 'l, 'ds, 'x, 's) net" where
  "store_for_cropped self y_preds_per_trial trial_ys s =
     (let epoch_cbs =
            filter (\<lambda>a. cb_class (objs s a) = CroppedTrialEpochScoring
                        \<and> on_train (objs s a) = on_train (objs s self)) (cbs s)
      in s\<lparr>objs := fold (\<lambda>a h. h(a := set_trial_results y_preds_per_trial trial_ys (h a)))
                       epoch_cbs (objs s)\<rparr>)"

text \<open>
  Lines 152 to 201, the part of the hook that runs when the trials are not computed
  yet.  \<open>self\<close> is the address of the callback.
\<close>

definition crops_to_trials ::
  "('a, 'l, 'ds, 'x, 'bx) externals \<Rightarrow> nat \<Rightarrow> 'ds \<Rightarrow>
   ('a, 'l, 'ds, 'x, 's) net \<Rightarrow> (exn + unit) \<times> ('a, 'l, 'ds, 'x, 's) net" where
  "crops_to_trials E self dataset_train s =
     (if crops_to_trials_computed (objs s self) then (Inr (), s)
      else
        (case (if on_train (objs s self)
               then predict_with_supercrop_inds_and_ys E dataset_train
               else gather_pred_results (objs s self)) of
           Inl e \<Rightarrow> (Inl e, s)
         | Inr pred_results \<Rightarrow>
             (case trial_ys_of (r_i_supercrop_in_trials pred_results)
                     (r_supercrop_ys pred_results) of
                Inl e \<Rightarrow> (Inl e, s)
              | Inr trial_ys \<Rightarrow>
                  (let s1 = s\<lparr>trace := trace s @ [Reassemble]\<rparr> in
                   case exn_bind
                          (trial_preds_from_supercrop_preds (r_preds pred_results)
                             (r_i_supercrop_in_trials pred_results)
                             (r_i_supercrop_stops pred_results))
                          (\<lambda>trial_preds. np_array_rows (map (map (np_mean E)) trial_preds)) of
                     Inl e \<Rightarrow> (Inl e, s1)
                   | Inr y_preds_per_trial \<Rightarrow>
                       (Inr (),
                        store_for_cropped self
                          [\<lparr>tdata = TrialPreds y_preds_per_trial, tdevice = CPU\<rparr>]
                          (LabelArray trial_ys) s1)))))"

text \<open>
  Modelled from the spec: \<open>_record_score\<close>, a method of the class \<open>EpochScoring\<close>
  of skorch that is not part of the sources.  The history is an append-only record
  keyed by the name of the metric, and the callback writes one scalar into it.
\<close>

definition record_score ::
  "string \<Rightarrow> 's \<Rightarrow> ('a, 'l, 'ds, 'x, 's) net \<Rightarrow> ('a, 'l, 'ds, 'x, 's) net" where
  "record_score nm current_score s = s\<lparr>history := history s @ [(nm, current_score)]\<rparr>"

text \<open>
  Lines 205 to 209, and lines 283 to 289: the scoring function runs inside the cache,
  and its score is recorded after the cache is closed.
\<close>

definition score_and_record ::
  "('a, 'l, 'ds, 'x, 'bx) externals \<Rightarrow> nat \<Rightarrow> bool \<Rightarrow> 'ds \<Rightarrow>
   ('a, 'l, 'ds, 'x, 's) net \<Rightarrow> (exn + unit) \<times> ('a, 'l, 'ds, 'x, 's) net" where
  "score_and_record E self use dataset s =
     (case cache_net_forward_iter s use (y_preds_' (objs s self))
             (run_prog (forward_iter E)
                (scoring (objs s self) dataset (y_trues_' (objs s self)))) of
        (Inl e, s1) \<Rightarrow> (Inl e, s1)
      | (Inr current_score, s1) \<Rightarrow>
          (Inr (), record_score (name_' (objs s self)) current_score s1))"

text \<open>\<open>CroppedTrialEpochScoring.on_epoch_end\<close> (lines 150 to 211).\<close>

definition cropped_on_epoch_end ::
  "('a, 'l, 'ds, 'x, 'bx) externals \<Rightarrow> nat \<Rightarrow> 'ds \<Rightarrow> 'ds \<Rightarrow>
   ('a, 'l, 'ds, 'x, 's) net \<Rightarrow> (exn + unit) \<times> ('a, 'l, 'ds, 'x, 's) net" where
  "cropped_on_epoch_end E self dataset_train dataset_valid s =
     (if \<not> use_caching (objs s self) then (Inl (AssertionError []), s)
      else
        (case crops_to_trials E self dataset_train s of
           (Inl e, s1) \<Rightarrow> (Inl e, s1)
         | (Inr u, s1) \<Rightarrow>
             score_and_record E self (use_caching (objs s1 self))
               (if on_train (objs s1 self) then dataset_train else dataset_valid) s1))"

text \<open>
  \<open>PostEpochTrainScoring.on_epoch_end\<close> (lines 255 to 289): when the callback holds
  no predictions, it runs the net over the training set and stores the predictions
  and the labels in every \<open>PostEpochTrainScoring\<close> of the list of the net.
\<close>

definition set_train_results ::
  "'a pred_data tensor list \<Rightarrow> 'l label_data \<Rightarrow>
   ('a, 'l, 'ds, 'x, 's) callback \<Rightarrow> ('a, 'l, 'ds, 'x, 's) callback" where
  "set_train_results y_preds y_test cb = cb\<lparr>y_preds_' := y_preds, y_trues_' := y_test\<rparr>"

definition store_for_post_epoch ::
  "'a pred_data tensor list \<Rightarrow> 'l label_data \<Rightarrow>
   ('a, 'l, 'ds, 'x, 's) net \<Rightarrow> ('a, 'l, 'ds, 'x, 's) net" where
  "store_for_post_epoch y_preds y_test s =
     (let epoch_cbs = filter (\<lambda>a. cb_class (objs s a) = PostEpochTrainScoring) (cbs s)
      in s\<lparr>objs := fold (\<lambda>a h. h(a := set_train_results y_preds y_test (h a)))
                       epoch_cbs (objs s)\<rparr>)"

definition recompute_train_preds ::
  "('a, 'l, 'ds, 'x, 'bx) externals \<Rightarrow> nat \<Rightarrow> 'ds \<Rightarrow>
   ('a, 'l, 'ds, 'x, 's) net \<Rightarrow> (exn + unit) \<times> ('a, 'l, 'ds, 'x, 's) net" where
  "recompute_train_preds E self dataset_train s =
     (let s1 = s\<lparr>trace := trace s @ [Inference]\<rparr>;
          iterator = get_iterator E dataset_train;
          y_preds = map (\<lambda>(batch_X, batch_y). tensor_to CPU (evaluation_step E batch_X)) iterator;
          y_test = map (\<lambda>(batch_X, batch_y). target_extractor (objs s self) batch_y) iterator
      in case np_concatenate_axis0 y_test of
           Inl e \<Rightarrow> (Inl e, s1)
         | Inr y_test1 \<Rightarrow> (Inr (), store_for_post_epoch y_preds (LabelArray y_test1) s1))"

definition post_epoch_on_epoch_end ::
  "('a, 'l, 'ds, 'x, 'bx) externals \<Rightarrow> nat \<Rightarrow> 'ds \<Rightarrow> 'ds \<Rightarrow>
   ('a, 'l, 'ds, 'x, 's) net \<Rightarrow> (exn + unit) \<times> ('a, 'l, 'ds, 'x, 's) net" where
  "post_epoch_on_epoch_end E self dataset_train dataset_valid s =
     (case (if length (y_preds_' (objs s self)) = 0
            then recompute_train_preds E self dataset_train s
            else (Inr (), s)) of
        (Inl e, s1) \<Rightarrow> (Inl e, s1)
      | (Inr u, s1) \<Rightarrow> score_and_record E self True dataset_train s1)"

text \<open>
  The hook of the callback at an address, by the class of the callback, and the hooks
  of a list of callbacks one after the other; an exception ends the sequence.
\<close>

definition on_epoch_end ::
  "('a, 'l, 'ds, 'x, 'bx) externals \<Rightarrow> nat \<Rightarrow> 'ds \<Rightarrow> 'ds \<Rightarrow>
   ('a, 'l, 'ds, 'x, 's) net \<Rightarrow> (exn + unit) \<times> ('a, 'l, 'ds, 'x, 's) net" where
  "on_epoch_end E self dataset_train dataset_valid s =
     (case cb_class (objs s self) of
        CroppedTrialEpochScoring \<Rightarrow> cropped_on_epoch_end E self dataset_train dataset_valid s
      | PostEpochTrainScoring \<Rightarrow> post_epoch_on_epoch_end E self dataset_train dataset_valid s
      | OtherCallback \<Rightarrow> (Inr (), s))"





section \<open>A net with two validation scorers\<close>

text \<open>
  A small net on which the hooks can be run: two trial scorers on the validation
  split, each with one batch of two windows of one trial in its buffers.
\<close>

definition example_callback ::
  "(unit \<Rightarrow> int label_data \<Rightarrow> (unit, int pred_data, nat) prog) \<Rightarrow>
   (int, int, unit, unit, nat) callback" where
  "example_callback sc =
     \<lparr>cb_class = CroppedTrialEpochScoring, name_' = ''valid_acc'', scoring = sc,
      on_train = False, use_caching = True, target_extractor = tdata,
      crops_to_trials_computed = False,
      y_trues_' = LabelBatches [\<lparr>tdata = [5, 5], tdevice = CPU\<rparr>],
      y_preds_' = [\<lparr>tdata = SupercropPreds [[[1, 2, 3]], [[4, 5, 9]]], tdevice = CPU\<rparr>],
      supercrop_inds_' =
        [(\<lparr>tdata = [0, 1], tdevice = CPU\<rparr>, \<lparr>tdata = [0, 2], tdevice = CPU\<rparr>,
          \<lparr>tdata = [3, 5], tdevice = CPU\<rparr>)]\<rparr>"

definition example_net ::
  "(unit \<Rightarrow> int label_data \<Rightarrow> (unit, int pred_data, nat) prog) \<Rightarrow>
   (int, int, unit, unit, nat) net" where
  "example_net sc =
     \<lparr>device = CPU, dict_forward_iter = None, cbs = [0, 1],
      objs = (\<lambda>a. example_callback sc), history = [], trace = []\<rparr>"

text \<open>
  The surroundings of the example nets.  The values are integers, and \<open>np_mean\<close> is
  the mean of such rows whose sum their length divides, as in the examples.  The
  training set has one batch with one label, and the model answers on a GPU.
\<close>

definition example_externals :: "(int, int, unit, unit, unit) externals" where
  "example_externals =
     \<lparr>forward_iter = (\<lambda>args device_kw. []),
      predict_with_supercrop_inds_and_ys = (\<lambda>ds. Inl ValueError),
      np_mean = (\<lambda>xs. sum_list xs div int (length xs)),
      get_iterator = (\<lambda>ds. [((), \<lparr>tdata = [5], tdevice = CPU\<rparr>)]),
      evaluation_step = (\<lambda>batch_X. \<lparr>tdata = TrialPreds [[1]], tdevice = CUDA 0\<rparr>)\<rparr>"


definition failing_scoring :: "unit \<Rightarrow> int label_data \<Rightarrow> (unit, int pred_data, nat) prog" where
  "failing_scoring ds y = ForwardIter () None 1 (\<lambda>yps. Raise (UserError 7))"

text \<open>
  A net with one validation scorer whose buffers hold one trial of three windows, all
  with the label 5.
\<close>

definition three_window_net :: "(int, int, unit, unit, nat) net" where
  "three_window_net =
     \<lparr>device = CPU, dict_forward_iter = None, cbs = [0],
      objs = (\<lambda>a.
        \<lparr>cb_class = CroppedTrialEpochScoring, name_' = ''valid_acc'',
         scoring = (\<lambda>ds y. Return 0),
         on_train = False, use_caching = True, target_extractor = tdata,
         crops_to_trials_computed = False,
         y_trues_' = LabelBatches [\<lparr>tdata = [5, 5, 5], tdevice = CPU\<rparr>],
         y_preds_' =
           [\<lparr>tdata = SupercropPreds [[[1, 2, 3]], [[4, 5, 6]], [[7, 8, 10]]],
             tdevice = CPU\<rparr>],
         supercrop_inds_' =
           [(\<lparr>tdata = [0, 1, 2], tdevice = CPU\<rparr>, \<lparr>tdata = [0, 2, 4], tdevice = CPU\<rparr>,
             \<lparr>tdata = [3, 5, 7], tdevice = CPU\<rparr>)]\<rparr>),
      history = [], trace = []\<rparr>"


section \<open>Evaluation on concrete inputs\<close>

text \<open>The definitions of the program, for the simplifier to run it on a given input.\<close>

lemmas reassembler_defs =
  trial_preds_from_supercrop_preds_def loop_init_def loop_step_def new_trial_check_def
  remove_duplicates_def slice_cols_from_def py_slice_from_def add_last_trial_def
  np_concatenate_axis1_def

lemmas hook_defs =
  on_epoch_end_def cropped_on_epoch_end_def crops_to_trials_def gather_pred_results_def
  exn_bind_def np_concatenate_axis0_def label_batches_def trial_ys_of_def np_mask_index_def
  supercrop_0_per_trial_mask_def np_diff_prepend_def np_array_rows_def
  store_for_cropped_def set_trial_results_def score_and_record_def cache_net_forward_iter_def
  override_forward_iter_def net_forward_iter_def cached_forward_iter_def tensor_to_def
  record_score_def post_epoch_on_epoch_end_def recompute_train_preds_def
  store_for_post_epoch_def set_train_results_def

section \<open>Properties of the reassembler\<close>

lemma i_supercrop_of_simp [simp]: "i_supercrop_of (p, i, s) = i"
  by (simp add: i_supercrop_of_def)

lemma length_slice_cols_from [simp]: "length (slice_cols_from k p) = length p"
  by (simp add: slice_cols_from_def)

lemma np_concatenate_axis1_same_rows:
  "ws \<noteq> [] \<Longrightarrow> same_rows c ws \<Longrightarrow> np_concatenate_axis1 ws = Inr (stack ws)"
  by (cases ws) (auto simp: np_concatenate_axis1_def same_rows_def list_all_iff stack_def)

lemma np_concatenate_axis1_error:
  "np_concatenate_axis1 ws = Inl e \<Longrightarrow> e = ValueError"
  by (auto simp: np_concatenate_axis1_def split: list.splits if_splits)

lemma map_i_supercrop_of_zip:
  "length preds = length inds \<Longrightarrow> length inds = length stops \<Longrightarrow>
   map i_supercrop_of (zip preds (zip inds stops)) = inds"
  by (induction preds inds stops rule: list_induct3) auto

subsection \<open>The loop builds the trials of the specification\<close>

lemma groups_from_trials:
  "groups_from cur ls ts =
     (cur @ dedup_from ls (takeWhile (\<lambda>u. i_supercrop_of u \<noteq> 0) ts))
       # map trial_windows (trials_of (dropWhile (\<lambda>u. i_supercrop_of u \<noteq> 0) ts))"
  by (induction cur ls ts rule: groups_from.induct) auto

lemma length_groups_from:
  "length (groups_from cur ls ts) = Suc (count_list (map i_supercrop_of ts) 0)"
  by (induction cur ls ts rule: groups_from.induct) auto

lemma groups_from_rows:
  "cur \<noteq> [] \<Longrightarrow> same_rows c cur \<Longrightarrow> same_rows c (map fst ts) \<Longrightarrow>
   list_all (\<lambda>g. g \<noteq> [] \<and> same_rows c g) (groups_from cur ls ts)"
  by (induction cur ls ts rule: groups_from.induct) (auto simp: same_rows_def)

text \<open>
  Inside a run of the loop: the accumulator is not empty, the last stop offset is set
  and the last index is not negative.  The loop and the final concatenation then give
  the stored trials followed by the groups of the remaining windows.
\<close>

lemma loop_groups:
  "cur_trial_preds v \<noteq> [] \<Longrightarrow> same_rows c (cur_trial_preds v) \<Longrightarrow>
   same_rows c (map fst ts) \<Longrightarrow> i_last_stop v = Some ls \<Longrightarrow> 0 \<le> i_last_supercrop v \<Longrightarrow>
   wf_from (i_last_supercrop v) (map i_supercrop_of ts) \<Longrightarrow>
   (case loop v ts of Inl e \<Rightarrow> Inl e | Inr v1 \<Rightarrow> add_last_trial v1)
     = Inr (preds_per_trial v @ map stack (groups_from (cur_trial_preds v) ls ts))"
proof (induction ts arbitrary: v ls)
  case Nil
  then show ?case
    by (simp add: add_last_trial_def np_concatenate_axis1_same_rows)
next
  case (Cons t ts)
  obtain p i s where t: "t = (p, i, s)" by (cases t)
  from Cons.prems t have rows: "length p = c" "same_rows c (map fst ts)"
    by (simp_all add: same_rows_def)
  from Cons.prems t have wf: "i = i_last_supercrop v + 1 \<or> i = 0"
    "wf_from i (map i_supercrop_of ts)"
    by simp_all
  show ?case
  proof (cases "i = 0")
    case True
    with Cons.prems have ne: "i \<noteq> i_last_supercrop v + 1" by simp
    let ?v1 = "v\<lparr>preds_per_trial := preds_per_trial v @ [stack (cur_trial_preds v)],
                  cur_trial_preds := [p], i_last_stop := Some s, i_last_supercrop := 0\<rparr>"
    have step: "loop_step v t = Inr ?v1"
      using True ne Cons.prems(1,2) t
      by (simp add: loop_step_def new_trial_check_def np_concatenate_axis1_same_rows
          remove_duplicates_def)
    have "(case loop ?v1 ts of Inl e \<Rightarrow> Inl e | Inr v1 \<Rightarrow> add_last_trial v1)
            = Inr (preds_per_trial ?v1 @ map stack (groups_from (cur_trial_preds ?v1) s ts))"
      using rows wf True by (intro Cons.IH) (simp_all add: same_rows_def)
    then show ?thesis using step t True by simp
  next
    case False
    with wf have eq: "i = i_last_supercrop v + 1" by simp
    let ?w = "slice_cols_from (- (s - ls)) p"
    let ?v1 = "v\<lparr>cur_trial_preds := cur_trial_preds v @ [?w],
                  i_last_supercrop := i, i_last_stop := Some s\<rparr>"
    have step: "loop_step v t = Inr ?v1"
      using eq Cons.prems(4) t
      by (simp add: loop_step_def new_trial_check_def remove_duplicates_def)
    have "(case loop ?v1 ts of Inl e \<Rightarrow> Inl e | Inr v1 \<Rightarrow> add_last_trial v1)
            = Inr (preds_per_trial ?v1 @ map stack (groups_from (cur_trial_preds ?v1) s ts))"
      using rows wf eq Cons.prems by (intro Cons.IH) (simp_all add: same_rows_def)
    then show ?thesis using step t False by simp
  qed
qed

lemma reassemble_trials:
  assumes len: "length preds = length inds" "length inds = length stops"
    and wf: "well_formed_indices inds"
    and rows: "same_rows c preds"
  shows "trial_preds_from_supercrop_preds preds inds stops
           = Inr (map (\<lambda>g. stack (trial_windows g)) (trials_of (zip preds (zip inds stops))))"
proof -
  from wf obtain i inds' where inds: "inds = i # inds'"
    by (cases inds) (auto simp: well_formed_indices_def)
  with wf have i0: "i = 0" and wf': "wf_from 0 inds'"
    by (auto simp: well_formed_indices_def)
  from len inds obtain p preds' where preds: "preds = p # preds'" by (cases preds) auto
  from len inds obtain s stops' where stops: "stops = s # stops'" by (cases stops) auto
  let ?ts = "zip preds' (zip inds' stops')"
  let ?v1 = "\<lparr>preds_per_trial = [], cur_trial_preds = [p], i_last_stop = Some s,
              i_last_supercrop = 0\<rparr>"
  have len': "length preds' = length inds'" "length inds' = length stops'"
    using len inds preds stops by simp_all
  have step: "loop_step loop_init (p, 0, s) = Inr ?v1"
    by (simp add: loop_step_def new_trial_check_def loop_init_def remove_duplicates_def)
  have "(case loop ?v1 ?ts of Inl e \<Rightarrow> Inl e | Inr v1 \<Rightarrow> add_last_trial v1)
          = Inr (preds_per_trial ?v1 @ map stack (groups_from (cur_trial_preds ?v1) s ?ts))"
    using rows preds wf' len'
    by (intro loop_groups [where c = c and ls = s])
      (simp_all add: same_rows_def map_i_supercrop_of_zip)
  then have "trial_preds_from_supercrop_preds preds inds stops
               = Inr (map stack (groups_from [p] s ?ts))"
    using len inds preds stops i0 step
    by (simp add: trial_preds_from_supercrop_preds_def)
  also have "map stack (groups_from [p] s ?ts)
               = map (\<lambda>g. stack (trial_windows g)) (trials_of (zip preds (zip inds stops)))"
    by (simp add: groups_from_trials inds preds stops i0)
  finally show ?thesis .
qed

lemma trial_windows_rows:
  assumes len: "length preds = length inds" "length inds = length stops"
    and wf: "well_formed_indices inds"
    and rows: "same_rows c preds"
  shows "list_all (\<lambda>g. g \<noteq> [] \<and> same_rows c g)
           (map trial_windows (trials_of (zip preds (zip inds stops))))"
proof -
  from wf obtain i inds' where inds: "inds = i # inds'"
    by (cases inds) (auto simp: well_formed_indices_def)
  from len inds obtain p preds' where preds: "preds = p # preds'" by (cases preds) auto
  from len inds obtain s stops' where stops: "stops = s # stops'" by (cases stops) auto
  let ?ts = "zip preds' (zip inds' stops')"
  have "list_all (\<lambda>g. g \<noteq> [] \<and> same_rows c g) (groups_from [p] s ?ts)"
    using rows preds len inds stops
    by (intro groups_from_rows) (simp_all add: same_rows_def)
  then show ?thesis
    by (simp add: groups_from_trials inds preds stops)
qed

lemma length_trials_of:
  fixes preds :: "'a array2 list" and stops :: "int list"
  assumes len: "length preds = length inds" "length inds = length stops"
    and wf: "well_formed_indices inds"
  shows "length (trials_of (zip preds (zip inds stops))) = count_list inds 0"
proof -
  from wf obtain i inds' where inds: "inds = i # inds'"
    by (cases inds) (auto simp: well_formed_indices_def)
  with wf have i0: "i = 0" by (auto simp: well_formed_indices_def)
  from len inds obtain p preds' where preds: "preds = p # preds'" by (cases preds) auto
  from len inds obtain s stops' where stops: "stops = s # stops'" by (cases stops) auto
  let ?ts = "zip preds' (zip inds' stops')"
  have len': "length preds' = length inds'" "length inds' = length stops'"
    using len inds preds stops by simp_all
  have "length (map trial_windows (trials_of (zip preds (zip inds stops))))
          = length (groups_from [p] s ?ts)"
    by (simp add: groups_from_trials inds preds stops)
  also have "\<dots> = Suc (count_list inds' 0)"
    by (simp add: length_groups_from map_i_supercrop_of_zip len')
  finally show ?thesis using inds i0 by simp
qed

text \<open>
  C7: for every well-formed input (sequences of one length, window indices that are not
  empty, start at 0 and go on with the successor or with 0, windows with one number of
  class rows), the reassembler returns as many trial arrays as the window indices hold
  zeros, and the trial arrays stand in the order in which the trials occur: the k-th
  output is the concatenation of the deduplicated windows of the k-th trial.
\<close>

theorem C7_trial_count_and_order:
  assumes "length preds = length inds" and "length inds = length stops"
    and "well_formed_indices inds"
    and "same_rows c preds"
  shows "\<exists>out. trial_preds_from_supercrop_preds preds inds stops = Inr out
           \<and> length out = count_list inds 0
           \<and> map Inr out
               = map (\<lambda>g. np_concatenate_axis1 (trial_windows g))
                   (trials_of (zip preds (zip inds stops)))"
proof -
  let ?trials = "trials_of (zip preds (zip inds stops))"
  let ?out = "map (\<lambda>g. stack (trial_windows g)) ?trials"
  have res: "trial_preds_from_supercrop_preds preds inds stops = Inr ?out"
    using assms by (rule reassemble_trials)
  have n: "length ?out = count_list inds 0"
    using assms(1-3) by (simp add: length_trials_of)
  have "list_all (\<lambda>g. g \<noteq> [] \<and> same_rows c g) (map trial_windows ?trials)"
    using assms by (rule trial_windows_rows)
  then have "map Inr ?out = map (\<lambda>g. np_concatenate_axis1 (trial_windows g)) ?trials"
    by (auto simp: list_all_iff np_concatenate_axis1_same_rows)
  with res n show ?thesis by blast
qed

text \<open>
  The theorem on three windows in two trials: two zeros among the indices, two trial
  arrays, the first from windows 0 and 1, the second from the third window.
\<close>

theorem C7_trial_count_and_order_witness:
  "trial_preds_from_supercrop_preds
     [[[1, 2, 3]], [[4, 5, 6]], [[7, 8, 9 :: int]]] [0, 1, 0] [3, 5, 3]
     = Inr [[[1, 2, 3, 5, 6]], [[7, 8, 9]]]
   \<and> count_list [0, 1, 0 :: int] 0 = 2"
  using C7_trial_count_and_order
    [of "[[[1, 2, 3]], [[4, 5, 6]], [[7, 8, 9 :: int]]]" "[0, 1, 0]" "[3, 5, 3]" 1]
  by (auto simp: well_formed_indices_def same_rows_def np_concatenate_axis1_def
      slice_cols_from_def py_slice_from_def)

subsection \<open>Windows that do not overlap\<close>

lemma py_slice_from_whole:
  "int (length row) = s - ls \<Longrightarrow> py_slice_from (ls - s) row = row"
  by (auto simp: py_slice_from_def Let_def)

lemma slice_cols_from_whole:
  "list_all (\<lambda>row. int (length row) = s - ls) p \<Longrightarrow> slice_cols_from (ls - s) p = p"
  by (simp add: slice_cols_from_def list_all_iff py_slice_from_whole map_idI)

lemma dedup_from_no_overlap:
  "no_overlap_from ls ts \<Longrightarrow>
   dedup_from ls (takeWhile (\<lambda>u. i_supercrop_of u \<noteq> 0) ts)
     = map fst (takeWhile (\<lambda>u. i_supercrop_of u \<noteq> 0) ts)"
  by (induction ls ts rule: no_overlap_from.induct) (auto simp: slice_cols_from_whole)

lemma no_overlap_from_dropWhile:
  "no_overlap_from ls ts \<Longrightarrow>
   no_overlap_from ls' (dropWhile (\<lambda>u. i_supercrop_of u \<noteq> 0) ts)"
  by (induction ls ts arbitrary: ls' rule: no_overlap_from.induct) auto

lemma trial_windows_no_overlap:
  "no_overlap_from ls ts \<Longrightarrow>
   map trial_windows (trials_of ts) = map (map fst) (trials_of ts)"
proof (induction ts arbitrary: ls rule: trials_of.induct)
  case 1
  then show ?case by simp
next
  case (2 t ts)
  obtain p i s where t: "t = (p, i, s)" by (cases t)
  with "2.prems" have no: "no_overlap_from s ts" by simp
  have "map trial_windows (trials_of (dropWhile (\<lambda>u. i_supercrop_of u \<noteq> 0) ts))
          = map (map fst) (trials_of (dropWhile (\<lambda>u. i_supercrop_of u \<noteq> 0) ts))"
    using no by (intro "2.IH" no_overlap_from_dropWhile)
  then show ?case using t no by (simp add: dedup_from_no_overlap)
qed

text \<open>
  C9: for every well-formed input in which the windows of a trial never overlap (every
  window that continues a trial is as long as its stop offset lies after the stop
  offset before it), the output for each trial is the plain concatenation along the
  time axis of all windows of that trial: no column is dropped.
\<close>

theorem C9_no_overlap_is_plain_concatenation:
  assumes "length preds = length inds" and "length inds = length stops"
    and "well_formed_indices inds"
    and "same_rows c preds"
    and "no_overlap (zip preds (zip inds stops))"
  shows "\<exists>out. trial_preds_from_supercrop_preds preds inds stops = Inr out
           \<and> map Inr out
               = map (\<lambda>g. np_concatenate_axis1 (map fst g))
                   (trials_of (zip preds (zip inds stops)))"
proof -
  let ?trials = "trials_of (zip preds (zip inds stops))"
  let ?out = "map (\<lambda>g. stack (trial_windows g)) ?trials"
  have res: "trial_preds_from_supercrop_preds preds inds stops = Inr ?out"
    using assms(1-4) by (rule reassemble_trials)
  have "no_overlap_from 0 (zip preds (zip inds stops))"
  proof (cases "zip preds (zip inds stops)")
    case Nil
    then show ?thesis by (simp only: no_overlap_from.simps)
  next
    case (Cons t ts)
    obtain p i s where t: "t = (p, i, s)" by (cases t)
    have "map i_supercrop_of (zip preds (zip inds stops)) = inds"
      using assms(1,2) by (rule map_i_supercrop_of_zip)
    with Cons t have "inds = i # map i_supercrop_of ts" by simp
    with assms(3) have "i = 0" by (simp add: well_formed_indices_def)
    with assms(5) Cons t show ?thesis by (simp add: no_overlap_def)
  qed
  then have tw: "map trial_windows ?trials = map (map fst) ?trials"
    by (rule trial_windows_no_overlap)
  have "list_all (\<lambda>g. g \<noteq> [] \<and> same_rows c g) (map trial_windows ?trials)"
    using assms(1-4) by (rule trial_windows_rows)
  then have "map Inr ?out = map (\<lambda>g. np_concatenate_axis1 (trial_windows g)) ?trials"
    by (auto simp: list_all_iff np_concatenate_axis1_same_rows)
  also have "\<dots> = map np_concatenate_axis1 (map trial_windows ?trials)"
    by simp
  also have "\<dots> = map (\<lambda>g. np_concatenate_axis1 (map fst g)) ?trials"
    by (simp only: tw) simp
  finally show ?thesis using res by blast
qed

text \<open>
  The theorem on windows of three steps whose stop offsets lie three apart: the first
  trial is windows 0 and 1 side by side.
\<close>

theorem C9_no_overlap_is_plain_concatenation_witness:
  "trial_preds_from_supercrop_preds
     [[[1, 2, 3]], [[4, 5, 6]], [[7, 8, 9 :: int]]] [0, 1, 0] [3, 6, 3]
     = Inr [[[1, 2, 3, 4, 5, 6]], [[7, 8, 9]]]"
  using C9_no_overlap_is_plain_concatenation
    [of "[[[1, 2, 3]], [[4, 5, 6]], [[7, 8, 9 :: int]]]" "[0, 1, 0]" "[3, 6, 3]" 1]
  by (auto simp: well_formed_indices_def same_rows_def np_concatenate_axis1_def no_overlap_def)

subsection \<open>Violations of the contract\<close>

lemma loop_step_cases:
  "loop_step v (p, i, s) = Inl e \<Longrightarrow>
     e = ValueError
     \<or> (e = AssertionError new_trial_msg \<and> i \<noteq> i_last_supercrop v + 1 \<and> i \<noteq> 0)"
  by (auto simp: loop_step_def new_trial_check_def
      split: if_splits sum.splits dest: np_concatenate_axis1_error)

lemma loop_step_last:
  "loop_step v (p, i, s) = Inr v1 \<Longrightarrow> i_last_supercrop v1 = i \<and> cur_trial_preds v1 \<noteq> []"
  by (auto simp: loop_step_def new_trial_check_def split: if_splits sum.splits)

lemma loop_step_bad_index:
  "i \<noteq> i_last_supercrop v + 1 \<Longrightarrow> i \<noteq> 0 \<Longrightarrow>
   loop_step v (p, i, s) = Inl (AssertionError new_trial_msg)"
  by (simp add: loop_step_def new_trial_check_def)

lemma loop_not_wf:
  "\<not> wf_from (i_last_supercrop v) (map i_supercrop_of ts) \<Longrightarrow>
   loop v ts = Inl (AssertionError new_trial_msg) \<or> loop v ts = Inl ValueError"
proof (induction ts arbitrary: v)
  case Nil
  then show ?case by simp
next
  case (Cons t ts)
  obtain p i s where t: "t = (p, i, s)" by (cases t)
  show ?case
  proof (cases "loop_step v t")
    case (Inl e)
    with t loop_step_cases [of v p i s e] show ?thesis by auto
  next
    case (Inr v1)
    with t have last: "i_last_supercrop v1 = i" using loop_step_last by blast
    have "i = i_last_supercrop v + 1 \<or> i = 0"
      using Inr t loop_step_bad_index [of i v p s] by auto
    with Cons.prems t last have "\<not> wf_from (i_last_supercrop v1) (map i_supercrop_of ts)"
      by simp
    then have "loop v1 ts = Inl (AssertionError new_trial_msg) \<or> loop v1 ts = Inl ValueError"
      by (rule Cons.IH)
    with Inr show ?thesis by simp
  qed
qed

lemma bad_index_not_wf:
  "k < length inds \<Longrightarrow> inds ! k \<noteq> (if k = 0 then prev else inds ! (k - 1)) + 1 \<Longrightarrow>
   inds ! k \<noteq> 0 \<Longrightarrow> \<not> wf_from prev inds"
proof (induction inds arbitrary: prev k)
  case Nil
  then show ?case by simp
next
  case (Cons i inds)
  show ?case
  proof (cases k)
    case 0
    with Cons.prems show ?thesis by simp
  next
    case (Suc j)
    with Cons.prems have "j < length inds"
      "inds ! j \<noteq> (if j = 0 then i else inds ! (j - 1)) + 1" "inds ! j \<noteq> 0"
      by (auto simp: nth_Cons')
    then have "\<not> wf_from i inds" by (rule Cons.IH)
    then show ?thesis by simp
  qed
qed

text \<open>
  C6: the reassembler raises, and so returns no output at all, in each of these cases.
  (1) The three input sequences do not all have one length: the assertion of line 41
  or 42 fails.  (2) The sequences have one length and some window has an index that is
  neither the successor of the index before it (of \<open>-1\<close> for the first window) nor 0:
  the assertion of line 68 fails, unless the concatenation of an earlier trial has
  raised \<open>ValueError\<close> before.
\<close>

theorem C6_contract_violations_raise:
  "(length preds \<noteq> length inds \<or> length inds \<noteq> length stops \<longrightarrow>
      trial_preds_from_supercrop_preds preds inds stops = Inl (AssertionError []))
   \<and> (length preds = length inds \<and> length inds = length stops
        \<and> k < length inds \<and> inds ! k \<noteq> prev_index inds k + 1 \<and> inds ! k \<noteq> 0 \<longrightarrow>
      trial_preds_from_supercrop_preds preds inds stops = Inl (AssertionError new_trial_msg)
      \<or> trial_preds_from_supercrop_preds preds inds stops = Inl ValueError)"
proof (intro conjI impI)
  assume "length preds \<noteq> length inds \<or> length inds \<noteq> length stops"
  then show "trial_preds_from_supercrop_preds preds inds stops = Inl (AssertionError [])"
    by (auto simp: trial_preds_from_supercrop_preds_def)
next
  assume a: "length preds = length inds \<and> length inds = length stops
        \<and> k < length inds \<and> inds ! k \<noteq> prev_index inds k + 1 \<and> inds ! k \<noteq> 0"
  then have "\<not> wf_from (- 1) inds"
    using bad_index_not_wf [of k inds "- 1"] by (simp add: prev_index_def)
  then have "\<not> wf_from (i_last_supercrop (loop_init :: 'a loop_vars))
               (map i_supercrop_of (zip preds (zip inds stops)))"
    using a by (simp add: map_i_supercrop_of_zip loop_init_def)
  then have "loop loop_init (zip preds (zip inds stops)) = Inl (AssertionError new_trial_msg)
           \<or> loop loop_init (zip preds (zip inds stops)) = Inl ValueError"
    by (rule loop_not_wf)
  then show "trial_preds_from_supercrop_preds preds inds stops = Inl (AssertionError new_trial_msg)
      \<or> trial_preds_from_supercrop_preds preds inds stops = Inl ValueError"
    using a by (auto simp: trial_preds_from_supercrop_preds_def)
qed

text \<open>
  The theorem on one prediction with two indices, and on two windows with the indices
  0 and 2.
\<close>

theorem C6_contract_violations_raise_witness:
  "trial_preds_from_supercrop_preds [[[1 :: int]]] [0, 1] [1] = Inl (AssertionError [])
   \<and> trial_preds_from_supercrop_preds [[[1 :: int]], [[2]]] [0, 2] [1, 2]
       = Inl (AssertionError new_trial_msg)"
proof -
  have 1: "trial_preds_from_supercrop_preds [[[1 :: int]]] [0, 1] [1] = Inl (AssertionError [])"
    using C6_contract_violations_raise [of "[[[1 :: int]]]" "[0, 1]" "[1]" 0] by simp
  have "trial_preds_from_supercrop_preds [[[1 :: int]], [[2]]] [0, 2] [1, 2]
          = Inl (AssertionError new_trial_msg)
      \<or> trial_preds_from_supercrop_preds [[[1 :: int]], [[2]]] [0, 2] [1, 2] = Inl ValueError"
    using C6_contract_violations_raise [of "[[[1 :: int]], [[2]]]" "[0, 2]" "[1, 2]" 1]
    by (simp add: prev_index_def)
  moreover have "trial_preds_from_supercrop_preds [[[1 :: int]], [[2]]] [0, 2] [1, 2]
                   \<noteq> Inl ValueError"
    by (simp add: trial_preds_from_supercrop_preds_def loop_init_def loop_step_def
      new_trial_check_def remove_duplicates_def)
  ultimately show ?thesis using 1 by blast
qed

subsection \<open>The truncation of a window\<close>

lemma py_slice_from_last:
  "ls < i_stop \<Longrightarrow>
   py_slice_from (ls - i_stop) row = drop (length row - nat (i_stop - ls)) row"
proof -
  assume "ls < i_stop"
  then have "nat (max (ls - i_stop + int (length row)) 0) = length row - nat (i_stop - ls)"
    by arith
  with \<open>ls < i_stop\<close> show ?thesis by (simp add: py_slice_from_def Let_def)
qed

lemma remove_duplicates_positive:
  "0 < i_stop - ls \<Longrightarrow>
   remove_duplicates (Some ls) i_stop p = last_cols (nat (i_stop - ls)) p"
  by (simp add: remove_duplicates_def slice_cols_from_def last_cols_def py_slice_from_last)

text \<open>
  A window that continues a trial and needs a positive number of predictions
  contributes its last \<open>n_needed_preds\<close> columns.
\<close>

lemma loop_step_keeps_last_needed:
  assumes "i_supercrop = i_last_supercrop v + 1" and "i_last_stop v = Some ls"
    and "0 < i_stop - ls"
  shows "loop_step v (p, i_supercrop, i_stop)
           = Inr (v\<lparr>cur_trial_preds := cur_trial_preds v @ [last_cols (nat (i_stop - ls)) p],
                    i_last_supercrop := i_supercrop, i_last_stop := Some i_stop\<rparr>)"
  using assms
  by (simp add: loop_step_def new_trial_check_def remove_duplicates_positive)

text \<open>
  C2: a window that continues a trial is to contribute exactly its last
  \<open>needed = stopOffset - lastStop\<close> columns, also for \<open>needed = 0\<close>.  At
  \<open>needed = 0\<close> the code does otherwise: the slice \<open>[:, -0:]\<close> is the whole window.
  The second window \<open>[[4,5,6]]\<close> with the stop offset 3 of the first is appended
  whole, where its last 0 columns are the array \<open>[[]]\<close>, and the trial has six
  time-steps instead of three.
\<close>

theorem C2_needed_zero_keeps_whole_window:
  "loop_step \<lparr>preds_per_trial = [], cur_trial_preds = [[[1, 2, 3]]], i_last_stop = Some 3,
              i_last_supercrop = 0\<rparr> ([[4, 5, 6 :: int]], 1, 3)
     = Inr \<lparr>preds_per_trial = [], cur_trial_preds = [[[1, 2, 3]], [[4, 5, 6]]],
            i_last_stop = Some 3, i_last_supercrop = 1\<rparr>
   \<and> last_cols 0 [[4, 5, 6 :: int]] = [[]]
   \<and> trial_preds_from_supercrop_preds [[[1, 2, 3]], [[4, 5, 6 :: int]]] [0, 1] [3, 3]
       = Inr [[[1, 2, 3, 4, 5, 6]]]"
  by (simp add: reassembler_defs last_cols_def)

subsection \<open>The reassembler on a concrete input\<close>

text \<open>
  C8: two windows of three time-steps and one class row, \<open>[[1,2,3]]\<close> and
  \<open>[[4,5,6]]\<close>, with window indices \<open>[0,1]\<close> and stop offsets \<open>[3,5]\<close>, give exactly
  one trial of five time-steps whose single row is \<open>[1,2,3,5,6]\<close>: the three steps
  of window 0 followed by the last two steps of window 1.
\<close>

theorem C8_end_to_end_example:
  "trial_preds_from_supercrop_preds [[[1, 2, 3]], [[4, 5, 6]]] [0, 1] [3, 5]
     = Inr [[[1, 2, 3, 5, 6 :: int]]]"
  by (simp add: reassembler_defs)

section \<open>The labels of the trials\<close>

text \<open>
  C1: the hook is to extract one label for each trial, the label of the window of
  index 0.  The mask of line 175 compares the differences with \<open>-1\<close>.  On two trials
  of three windows each, with the labels 7 and 9, it selects five labels: all windows
  but the first, whose difference to the prepended 1 is \<open>-1\<close>.  The labels of the
  windows of index 0 are \<open>[7, 9]\<close>.  On one trial of one window it selects no label.
  In the hook of a scorer whose buffers hold one trial of three windows, the scorer
  ends up with two labels and one trial prediction.
\<close>

theorem C1_mask_selects_non_first_windows:
  "trial_ys_of [0, 1, 2, 0, 1, 2] [7, 7, 7, 9, 9, 9 :: int] = Inr [7, 7, 9, 9, 9]
   \<and> first_window_labels [0, 1, 2, 0, 1, 2] [7, 7, 7, 9, 9, 9 :: int] = [7, 9]
   \<and> count_list [0, 1, 2, 0, 1, 2 :: int] 0 = 2
   \<and> trial_ys_of [0] [7 :: int] = Inr []
   \<and> y_trues_' (objs (snd (crops_to_trials example_externals 0 () three_window_net)) 0)
       = LabelArray [5, 5]
   \<and> y_preds_' (objs (snd (crops_to_trials example_externals 0 () three_window_net)) 0)
       = [\<lparr>tdata = TrialPreds [[5]], tdevice = CPU\<rparr>]"
  by (simp add: first_window_labels_def three_window_net_def example_externals_def
      hook_defs reassembler_defs)

section \<open>Properties of the epoch prediction cache\<close>

lemma tdata_tensor_to [simp]: "tdata (tensor_to d t) = tdata t"
  by (simp add: tensor_to_def)

text \<open>
  A scoring function changes nothing of the net but the position of the iterator of
  the override, and it neither installs nor removes the override.
\<close>

lemma net_forward_iter_frame:
  "net_forward_iter real s args device_kw n = (yps, s1) \<Longrightarrow>
   s1 = s\<lparr>dict_forward_iter := dict_forward_iter s1\<rparr>
   \<and> (dict_forward_iter s1 = None \<longleftrightarrow> dict_forward_iter s = None)"
  by (auto simp: net_forward_iter_def split: option.splits prod.splits)

lemma run_prog_frame:
  "run_prog real p s = (r, s1) \<Longrightarrow>
   s1 = s\<lparr>dict_forward_iter := dict_forward_iter s1\<rparr>
   \<and> (dict_forward_iter s1 = None \<longleftrightarrow> dict_forward_iter s = None)"
proof (induction p arbitrary: s)
  case (Return x)
  then show ?case by auto
next
  case (Raise e)
  then show ?case by auto
next
  case (ForwardIter args device_kw n k)
  obtain yps s0 where nf: "net_forward_iter real s args device_kw n = (yps, s0)"
    by (cases "net_forward_iter real s args device_kw n")
  with ForwardIter.prems have run: "run_prog real (k yps) s0 = (r, s1)" by simp
  have f0: "s0 = s\<lparr>dict_forward_iter := dict_forward_iter s0\<rparr>"
    and d0: "dict_forward_iter s0 = None \<longleftrightarrow> dict_forward_iter s = None"
    using net_forward_iter_frame [OF nf] by blast+
  have "k yps \<in> range k" by simp
  from ForwardIter.IH [OF this run]
  have f1: "s1 = s0\<lparr>dict_forward_iter := dict_forward_iter s1\<rparr>"
    and d1: "dict_forward_iter s1 = None \<longleftrightarrow> dict_forward_iter s0 = None"
    by blast+
  have "s1 = s\<lparr>dict_forward_iter := dict_forward_iter s1\<rparr>"
    by (subst f1, subst f0) simp
  with d0 d1 show ?case by simp
qed

lemma cache_scope_prog:
  "cache_net_forward_iter s True y_preds (run_prog real p)
     = (fst (run_prog real p (override_forward_iter y_preds s)),
        s\<lparr>dict_forward_iter := None, trace := trace s @ [Override, Restore]\<rparr>)"
proof -
  obtain r s2 where run: "run_prog real p (override_forward_iter y_preds s) = (r, s2)"
    by (cases "run_prog real p (override_forward_iter y_preds s)")
  from run_prog_frame [OF run]
  have f: "s2 = (override_forward_iter y_preds s)\<lparr>dict_forward_iter := dict_forward_iter s2\<rparr>"
    and d: "dict_forward_iter s2 \<noteq> None"
    by (auto simp: override_forward_iter_def)
  from d obtain c where c: "dict_forward_iter s2 = Some c" by auto
  have "s2\<lparr>dict_forward_iter := None, trace := trace s2 @ [Restore]\<rparr>
          = s\<lparr>dict_forward_iter := None, trace := trace s @ [Override, Restore]\<rparr>"
    by (subst (1 2) f) (simp add: override_forward_iter_def)
  with run c show ?thesis by (simp add: cache_net_forward_iter_def)
qed

text \<open>
  C3: with caching disabled the body of the scope runs on the net itself, unchanged.
  With caching enabled, an inference call inside the scope that reads \<open>n\<close> predictions
  gets the first \<open>n\<close> of the supplied predictions in their order, each moved to the
  device of the call (the device of the net when the call names none) with its data
  as it was; two calls after one another get the first \<open>n1\<close> and the next \<open>n2\<close>.
  Whatever the scoring function in the scope does, and whether it returns or raises,
  the scope ends with the override deleted once and nothing else of the net changed:
  a net that had no entry \<open>forward_iter\<close> of its own is as it was before the
  scope.  An inference call after the scope runs the real inference of the class.
\<close>

theorem C3_scoped_cache:
  "cache_net_forward_iter s False y_preds body = body s
   \<and> cache_net_forward_iter s True y_preds
         (run_prog real (ForwardIter args device_kw n Return))
       = (Inr (map (tensor_to (case device_kw of None \<Rightarrow> device s | Some d \<Rightarrow> d))
                 (take n y_preds)),
          s\<lparr>dict_forward_iter := None, trace := trace s @ [Override, Restore]\<rparr>)
   \<and> tdata (tensor_to d0 t) = tdata t
   \<and> cache_net_forward_iter s True y_preds
         (run_prog real
            (ForwardIter args1 None n1 (\<lambda>y1. ForwardIter args2 None n2 (\<lambda>y2. Return (y1 @ y2)))))
       = (Inr (map (tensor_to (device s)) (take (n1 + n2) y_preds)),
          s\<lparr>dict_forward_iter := None, trace := trace s @ [Override, Restore]\<rparr>)
   \<and> snd (cache_net_forward_iter s True y_preds (run_prog real p))
       = s\<lparr>dict_forward_iter := None, trace := trace s @ [Override, Restore]\<rparr>
   \<and> fst (net_forward_iter real
            (snd (cache_net_forward_iter s True y_preds (run_prog real p))) args3 device_kw3 m)
       = take m (real args3 device_kw3)"
proof (intro conjI)
  show "cache_net_forward_iter s False y_preds body = body s"
    by (simp add: cache_net_forward_iter_def)
  show "cache_net_forward_iter s True y_preds
         (run_prog real (ForwardIter args device_kw n Return))
       = (Inr (map (tensor_to (case device_kw of None \<Rightarrow> device s | Some d \<Rightarrow> d))
                 (take n y_preds)),
          s\<lparr>dict_forward_iter := None, trace := trace s @ [Override, Restore]\<rparr>)"
    by (simp add: cache_scope_prog)
      (simp add: override_forward_iter_def net_forward_iter_def cached_forward_iter_def
        split: option.splits)
  show "tdata (tensor_to d0 t) = tdata t"
    by simp
  show "cache_net_forward_iter s True y_preds
         (run_prog real
            (ForwardIter args1 None n1 (\<lambda>y1. ForwardIter args2 None n2 (\<lambda>y2. Return (y1 @ y2)))))
       = (Inr (map (tensor_to (device s)) (take (n1 + n2) y_preds)),
          s\<lparr>dict_forward_iter := None, trace := trace s @ [Override, Restore]\<rparr>)"
    by (simp add: cache_scope_prog)
      (simp add: override_forward_iter_def net_forward_iter_def cached_forward_iter_def
        take_add)
  show "snd (cache_net_forward_iter s True y_preds (run_prog real p))
       = s\<lparr>dict_forward_iter := None, trace := trace s @ [Override, Restore]\<rparr>"
    by (simp add: cache_scope_prog)
  show "fst (net_forward_iter real
            (snd (cache_net_forward_iter s True y_preds (run_prog real p))) args3 device_kw3 m)
       = take m (real args3 device_kw3)"
    by (simp add: cache_scope_prog net_forward_iter_def)
qed

text \<open>
  C10, as it is stated: the override ignores all of its call arguments, so that any
  two argument lists yield identical predictions.  The keyword \<open>device\<close> is an
  argument of the call, and it is not ignored: the same cached prediction is yielded
  on the CPU by a call with \<open>device=cpu\<close> and on a GPU by a call with
  \<open>device=cuda:0\<close>.
\<close>

theorem C10_device_keyword_counterexample:
  "fst (cached_forward_iter
          \<lparr>y_preds_it = [\<lparr>tdata = 1 :: int, tdevice = CPU\<rparr>], device_default = CPU\<rparr>
          () (Some CPU) 1)
   \<noteq> fst (cached_forward_iter
          \<lparr>y_preds_it = [\<lparr>tdata = 1 :: int, tdevice = CPU\<rparr>], device_default = CPU\<rparr>
          () (Some (CUDA 0)) 1)"
  by (simp add: cached_forward_iter_def tensor_to_def)

text \<open>
  C10, amended: the override ignores its positional arguments and every keyword
  argument but \<open>device\<close> (in particular the dataset).  Two calls with the same
  \<open>device\<close> do the same; two calls whatsoever yield predictions with the same data in
  the same order, each on the device of its call, the device of the net by default.
  What a call yields depends only on the supplied sequence and on how many of its
  entries earlier calls of the scope have consumed: a call draws the next entries of
  the one shared iterator, and once the iterator is exhausted a call yields nothing.
  Inside the scope the real inference of the net is not consulted.
\<close>

theorem C10_cached_forward_iter_ignores_args:
  "cached_forward_iter c args1 device_kw n = cached_forward_iter c args2 device_kw n
   \<and> fst (cached_forward_iter c args1 d1 n)
       = map (tensor_to (case d1 of None \<Rightarrow> device_default c | Some d \<Rightarrow> d))
           (take n (y_preds_it c))
   \<and> map tdata (fst (cached_forward_iter c args1 d1 n))
       = map tdata (fst (cached_forward_iter c args2 d2 n))
   \<and> y_preds_it (snd (cached_forward_iter c args1 d1 n)) = drop n (y_preds_it c)
   \<and> fst (cached_forward_iter (snd (cached_forward_iter c args1 d1 n)) args2 d2 m)
       = map (tensor_to (case d2 of None \<Rightarrow> device_default c | Some d \<Rightarrow> d))
           (take m (drop n (y_preds_it c)))
   \<and> fst (cached_forward_iter
            (snd (cached_forward_iter c args1 d1 (length (y_preds_it c) + k))) args2 d2 m) = []
   \<and> fst (net_forward_iter real (override_forward_iter y_preds s) args1 device_kw n)
       = fst (net_forward_iter real' (override_forward_iter y_preds s) args2 device_kw n)"
  by (simp add: cached_forward_iter_def tensor_to_def net_forward_iter_def
      override_forward_iter_def split: option.splits)

section \<open>Properties of the scoring callbacks\<close>

subsection \<open>What the parts of a hook change\<close>

lemma fold_upd_apply:
  assumes "\<And>x. f (f x) = f x"
  shows "fold (\<lambda>a h. h(a := f (h a))) as h b = (if b \<in> set as then f (h b) else h b)"
  using assms by (induction as arbitrary: h) auto

lemma set_trial_results_idem:
  "set_trial_results yp yt (set_trial_results yp yt cb) = set_trial_results yp yt cb"
  by (simp add: set_trial_results_def)


lemma store_for_cropped_objs:
  "objs (store_for_cropped self yp yt s) b =
     (if b \<in> set (cbs s) \<and> cb_class (objs s b) = CroppedTrialEpochScoring
          \<and> on_train (objs s b) = on_train (objs s self)
      then set_trial_results yp yt (objs s b) else objs s b)"
  by (simp add: store_for_cropped_def
      fold_upd_apply [where f = "set_trial_results yp yt", OF set_trial_results_idem])




lemma crops_to_trials_frame:
  assumes "crops_to_trials E self dt s = (r, s1)"
  shows "history s1 = history s \<and> dict_forward_iter s1 = dict_forward_iter s
         \<and> cbs s1 = cbs s \<and> device s1 = device s
         \<and> use_caching (objs s1 b) = use_caching (objs s b)
         \<and> on_train (objs s1 b) = on_train (objs s b)
         \<and> cb_class (objs s1 b) = cb_class (objs s b)"
proof (cases "crops_to_trials_computed (objs s self)")
  case True
  with assms show ?thesis by (simp add: crops_to_trials_def)
next
  case False
  have st: "\<And>yp yt s0. history (store_for_cropped self yp yt s0) = history s0
      \<and> dict_forward_iter (store_for_cropped self yp yt s0) = dict_forward_iter s0
      \<and> cbs (store_for_cropped self yp yt s0) = cbs s0
      \<and> device (store_for_cropped self yp yt s0) = device s0
      \<and> use_caching (objs (store_for_cropped self yp yt s0) b) = use_caching (objs s0 b)
      \<and> on_train (objs (store_for_cropped self yp yt s0) b) = on_train (objs s0 b)
      \<and> cb_class (objs (store_for_cropped self yp yt s0) b) = cb_class (objs s0 b)"
    by (simp add: store_for_cropped_objs set_trial_results_def)
      (simp add: store_for_cropped_def)
  from False assms show ?thesis
    by (auto simp: crops_to_trials_def Let_def st split: sum.splits if_splits)
qed

lemma score_and_record_cached:
  "score_and_record E self True ds s =
     (case fst (run_prog (forward_iter E)
                  (scoring (objs s self) ds (y_trues_' (objs s self)))
                  (override_forward_iter (y_preds_' (objs s self)) s)) of
        Inl e \<Rightarrow> (Inl e, s\<lparr>dict_forward_iter := None, trace := trace s @ [Override, Restore]\<rparr>)
      | Inr current_score \<Rightarrow>
          (Inr (), record_score (name_' (objs s self)) current_score
                     (s\<lparr>dict_forward_iter := None, trace := trace s @ [Override, Restore]\<rparr>)))"
  by (simp add: score_and_record_def cache_scope_prog split: sum.splits)




subsection \<open>The first hook of a group\<close>





lemmas example_defs =
  example_net_def example_callback_def example_externals_def hook_defs reassembler_defs


subsection \<open>A scoring function that raises\<close>

text \<open>
  C5: let the trial scorer have its trials (computed by this hook or before), and let
  the scoring function raise \<open>e\<close> when it runs on the net with the override.  Then
  the hook raises \<open>e\<close>, the override was deleted once, so that the net has no entry
  \<open>forward_iter\<close> of its own again, and the history is the history before the hook:
  no score is recorded.
\<close>

theorem C5_scoring_failure:
  assumes uc: "use_caching (objs s self)"
    and ct: "crops_to_trials E self dataset_train s = (Inr (), s1)"
    and fails: "fst (run_prog (forward_iter E)
                  (scoring (objs s1 self)
                     (if on_train (objs s1 self) then dataset_train else dataset_valid)
                     (y_trues_' (objs s1 self)))
                  (override_forward_iter (y_preds_' (objs s1 self)) s1)) = Inl e"
  shows "cropped_on_epoch_end E self dataset_train dataset_valid s
           = (Inl e, s1\<lparr>dict_forward_iter := None, trace := trace s1 @ [Override, Restore]\<rparr>)
         \<and> history s1 = history s"
proof -
  from crops_to_trials_frame [OF ct, of self] uc
  have uc1: "use_caching (objs s1 self)" and h: "history s1 = history s" by simp_all
  have "score_and_record E self True
          (if on_train (objs s1 self) then dataset_train else dataset_valid) s1
        = (Inl e, s1\<lparr>dict_forward_iter := None, trace := trace s1 @ [Override, Restore]\<rparr>)"
    using fails by (simp add: score_and_record_cached)
  with uc ct uc1 h show ?thesis by (simp add: cropped_on_epoch_end_def)
qed

text \<open>
  The theorem on the net with two validation scorers and the scoring function that
  raises: the hook raises the error of the scoring function, the history stays empty,
  and the trace ends with one override and one deletion.
\<close>

theorem C5_scoring_failure_witness:
  "fst (cropped_on_epoch_end example_externals 0 () () (example_net failing_scoring))
     = Inl (UserError 7)
   \<and> history (snd (cropped_on_epoch_end example_externals 0 () () (example_net failing_scoring)))
     = []
   \<and> dict_forward_iter
       (snd (cropped_on_epoch_end example_externals 0 () () (example_net failing_scoring)))
     = None
   \<and> trace (snd (cropped_on_epoch_end example_externals 0 () () (example_net failing_scoring)))
     = [Reassemble, Override, Restore]"
proof -
  let ?s = "example_net failing_scoring"
  let ?s1 = "snd (crops_to_trials example_externals 0 () ?s)"
  have uc: "use_caching (objs ?s 0)" by (simp add: example_defs failing_scoring_def)
  have ct: "crops_to_trials example_externals 0 () ?s = (Inr (), ?s1)"
    by (simp add: example_defs failing_scoring_def)
  have fails: "fst (run_prog (forward_iter example_externals)
                  (scoring (objs ?s1 0) (if on_train (objs ?s1 0) then () else ())
                     (y_trues_' (objs ?s1 0)))
                  (override_forward_iter (y_preds_' (objs ?s1 0)) ?s1)) = Inl (UserError 7)"
    by (simp add: example_defs failing_scoring_def)
  from C5_scoring_failure [OF uc ct fails]
  show ?thesis by (simp add: example_defs failing_scoring_def)
qed

end
